theory Spec2Isabelle
  imports Main "HOL-Library.Word" "HOL-Library.AList"
begin

unbundle bit_operations_syntax

section \<open>The preset engine of gst/gstpreset.c\<close>

text \<open>
  A shallow embedding of the default implementation of the GstPreset interface:
  the version parser, the merge of the system and the user preset file, the cached
  key file of an element type, and the operations built on it (listing, loading,
  renaming, meta data, saving the presets file).

  The C code works on a \<^verbatim>\<open>GKeyFile\<close> of GLib, on the file system and on the
  properties of a GObject. None of these is part of gstpreset.c; subsection
  \<open>The key file of GLib\<close> models the documented behaviour of the calls that
  gstpreset.c makes, and the functions of gstpreset.c are translated over that model.
\<close>

subsection \<open>Version strings: \<^verbatim>\<open>preset_parse_version\<close>\<close>

text \<open>
  \<^verbatim>\<open>sscanf (str_version, "%d.%d.%d.%d", &major, &minor, &micro, &nano)\<close>.
  A \<^verbatim>\<open>%d\<close> conversion skips white space, reads an optional sign and then at least
  one decimal digit. The value is stored into a 32-bit \<^verbatim>\<open>gint\<close>; a numeral that
  does not fit is undefined in C and wraps around here.
\<close>

definition isspace :: "char \<Rightarrow> bool" where
  "isspace c = (c = CHR '' '' \<or> c = CHR 0x09 \<or> c = CHR 0x0A \<or> c = CHR 0x0B
                \<or> c = CHR 0x0C \<or> c = CHR 0x0D)"

definition isdigit :: "char \<Rightarrow> bool" where
  "isdigit c = (48 \<le> (of_char c :: nat) \<and> (of_char c :: nat) \<le> 57)"

definition digit_val :: "char \<Rightarrow> int" where
  "digit_val c = int (of_char c) - 48"

fun decimal :: "int \<Rightarrow> string \<Rightarrow> int" where
  "decimal acc [] = acc"
| "decimal acc (c # cs) = decimal (10 * acc + digit_val c) cs"

datatype scan = Input_Failure | Matching_Failure | Converted "32 word" string

text \<open>One \<^verbatim>\<open>%d\<close> directive: the converted value and the rest of the input.\<close>

definition scan_d :: "string \<Rightarrow> scan" where
  "scan_d s =
     (let s1 = dropWhile isspace s;
          neg = (case s1 of c # _ \<Rightarrow> c = CHR ''-'' | [] \<Rightarrow> False);
          s2 = (case s1 of c # r \<Rightarrow> if c = CHR ''-'' \<or> c = CHR ''+'' then r else s1
                | [] \<Rightarrow> s1);
          ds = takeWhile isdigit s2
      in if ds = [] then (if s2 = [] then Input_Failure else Matching_Failure)
         else Converted (word_of_int (if neg then - decimal 0 ds else decimal 0 ds))
                (dropWhile isdigit s2))"

text \<open>The literal \<^verbatim>\<open>.\<close> of the format followed by the next \<^verbatim>\<open>%d\<close>.\<close>

definition scan_dot_d :: "string \<Rightarrow> scan" where
  "scan_dot_d s =
     (case s of [] \<Rightarrow> Input_Failure
      | c # r \<Rightarrow> if c = CHR ''.'' then scan_d r else Matching_Failure)"

record scanned =
  num :: int
  major :: "32 word"
  minor :: "32 word"
  micro :: "32 word"
  nano :: "32 word"

text \<open>
  The whole call; the four variables start at 0 (\<^verbatim>\<open>major = minor = micro = nano = 0\<close>)
  and \<open>num\<close> is the number of conversions stored, or \<^verbatim>\<open>EOF\<close> (\<open>- 1\<close>) when the
  input ends before the first one.
\<close>

definition sscanf_version :: "string \<Rightarrow> scanned" where
  "sscanf_version s =
     (case scan_d s of
        Input_Failure \<Rightarrow> \<lparr>num = - 1, major = 0, minor = 0, micro = 0, nano = 0\<rparr>
      | Matching_Failure \<Rightarrow> \<lparr>num = 0, major = 0, minor = 0, micro = 0, nano = 0\<rparr>
      | Converted a r1 \<Rightarrow>
         (case scan_dot_d r1 of
            Converted b r2 \<Rightarrow>
              (case scan_dot_d r2 of
                 Converted c r3 \<Rightarrow>
                   (case scan_dot_d r3 of
                      Converted d r4 \<Rightarrow>
                        \<lparr>num = 4, major = a, minor = b, micro = c, nano = d\<rparr>
                    | _ \<Rightarrow> \<lparr>num = 3, major = a, minor = b, micro = c, nano = 0\<rparr>)
               | _ \<Rightarrow> \<lparr>num = 2, major = a, minor = b, micro = 0, nano = 0\<rparr>)
          | _ \<Rightarrow> \<lparr>num = 1, major = a, minor = 0, micro = 0, nano = 0\<rparr>))"

text \<open>
  \<^verbatim>\<open>version = ((((major << 8 | minor) << 8) | micro) << 8) | nano\<close>: the shifts and
  the ors are computed on \<^verbatim>\<open>gint\<close>, and the 32-bit result is converted to the
  \<^verbatim>\<open>guint64\<close> (a signed conversion, so a negative \<^verbatim>\<open>gint\<close> is sign-extended).
\<close>

definition pack_version :: "32 word \<Rightarrow> 32 word \<Rightarrow> 32 word \<Rightarrow> 32 word \<Rightarrow> 64 word" where
  "pack_version ma mi mc na =
     scast (push_bit 8 (push_bit 8 (push_bit 8 ma OR mi) OR mc) OR na)"

definition preset_parse_version :: "string \<Rightarrow> 64 word" where
  "preset_parse_version str_version =
     (let r = sscanf_version str_version
      in if num r > 1 then pack_version (major r) (minor r) (micro r) (nano r) else 0)"


subsection \<open>The key file of GLib\<close>

text \<open>
  A \<^verbatim>\<open>GKeyFile\<close> is an ordered sequence of named groups below an optional comment
  at the top of the file; a group has an optional comment and an ordered sequence of
  keys, and a key has a value and an optional comment. New groups and new keys are
  added at the end. The definitions follow the documented behaviour of the GLib
  calls for well-formed group and key names; a call that GLib rejects with an error
  (a group or a key that is not there) leaves the key file as it is, and gstpreset.c
  always passes \<^verbatim>\<open>NULL\<close> for the error location. A \<^verbatim>\<open>NULL\<close> string is \<open>None\<close>.
\<close>

record kf_entry =
  ent_value :: string
  ent_comment :: "string option"

record kf_group =
  grp_comment :: "string option"
  grp_entries :: "(string \<times> kf_entry) list"

record keyfile =
  top_comment :: "string option"
  kf_groups :: "(string \<times> kf_group) list"

definition g_key_file_new :: keyfile where
  "g_key_file_new = \<lparr>top_comment = None, kf_groups = []\<rparr>"

definition lookup_group :: "keyfile \<Rightarrow> string \<Rightarrow> kf_group option" where
  "lookup_group kf g = map_of (kf_groups kf) g"

definition lookup_entry :: "keyfile \<Rightarrow> string \<Rightarrow> string \<Rightarrow> kf_entry option" where
  "lookup_entry kf g k =
     (case lookup_group kf g of None \<Rightarrow> None | Some grp \<Rightarrow> map_of (grp_entries grp) k)"

definition g_key_file_has_group :: "keyfile \<Rightarrow> string \<Rightarrow> bool" where
  "g_key_file_has_group kf g = (lookup_group kf g \<noteq> None)"

definition g_key_file_get_groups :: "keyfile \<Rightarrow> string list" where
  "g_key_file_get_groups kf = map fst (kf_groups kf)"

definition g_key_file_get_keys :: "keyfile \<Rightarrow> string \<Rightarrow> string list option" where
  "g_key_file_get_keys kf g =
     (case lookup_group kf g of None \<Rightarrow> None | Some grp \<Rightarrow> Some (map fst (grp_entries grp)))"

definition g_key_file_get_value :: "keyfile \<Rightarrow> string \<Rightarrow> string \<Rightarrow> string option" where
  "g_key_file_get_value kf g k = map_option ent_value (lookup_entry kf g k)"

text \<open>
  \<^verbatim>\<open>g_key_file_set_value\<close>: a missing group is created with the key in it, a
  missing key is added to the group, the value of an existing key is replaced (its
  comment stays).
\<close>

definition g_key_file_set_value :: "keyfile \<Rightarrow> string \<Rightarrow> string \<Rightarrow> string \<Rightarrow> keyfile" where
  "g_key_file_set_value kf g k v =
     (let fresh = \<lparr>ent_value = v, ent_comment = None\<rparr>
      in kf\<lparr>kf_groups :=
           map_default g \<lparr>grp_comment = None, grp_entries = [(k, fresh)]\<rparr>
             (\<lambda>grp. grp\<lparr>grp_entries :=
                      map_default k fresh (\<lambda>e. e\<lparr>ent_value := v\<rparr>) (grp_entries grp)\<rparr>)
             (kf_groups kf)\<rparr>)"

text \<open>
  \<^verbatim>\<open>g_key_file_set_string\<close> stores the escaped form of the string
  (\<^verbatim>\<open>g_key_file_parse_string_as_value\<close>): leading blanks and tabs, newlines,
  carriage returns and backslashes are written as escape sequences.
\<close>

fun escape_string :: "bool \<Rightarrow> string \<Rightarrow> string" where
  "escape_string leading [] = []"
| "escape_string leading (c # cs) =
     (if c = CHR '' '' then (if leading then [CHR 0x5C, CHR ''s''] else [c]) @ escape_string leading cs
      else if c = CHR 0x09 then (if leading then [CHR 0x5C, CHR ''t''] else [c]) @ escape_string leading cs
      else if c = CHR 0x0A then [CHR 0x5C, CHR ''n''] @ escape_string leading cs
      else if c = CHR 0x0D then [CHR 0x5C, CHR ''r''] @ escape_string leading cs
      else if c = CHR 0x5C then [c, c] @ escape_string False cs
      else c # escape_string False cs)"

definition g_key_file_set_string :: "keyfile \<Rightarrow> string \<Rightarrow> string \<Rightarrow> string \<Rightarrow> keyfile" where
  "g_key_file_set_string kf g k s = g_key_file_set_value kf g k (escape_string True s)"

definition g_key_file_remove_group :: "keyfile \<Rightarrow> string \<Rightarrow> keyfile" where
  "g_key_file_remove_group kf g = kf\<lparr>kf_groups := AList.delete g (kf_groups kf)\<rparr>"

definition g_key_file_remove_key :: "keyfile \<Rightarrow> string \<Rightarrow> string \<Rightarrow> keyfile" where
  "g_key_file_remove_key kf g k =
     kf\<lparr>kf_groups :=
          AList.map_entry g (\<lambda>grp. grp\<lparr>grp_entries := AList.delete k (grp_entries grp)\<rparr>)
            (kf_groups kf)\<rparr>"

text \<open>
  \<^verbatim>\<open>g_key_file_get_comment (kf, group, key)\<close> and \<^verbatim>\<open>g_key_file_set_comment\<close>:
  with both names the comment above the key, with a group name only the comment above
  the group, with no group name the comment at the top of the file. Setting a comment
  on a group or a key that does not exist fails and changes nothing.
\<close>

definition g_key_file_get_comment ::
  "keyfile \<Rightarrow> string option \<Rightarrow> string option \<Rightarrow> string option" where
  "g_key_file_get_comment kf grp_name key_name =
     (case grp_name of
        None \<Rightarrow> top_comment kf
      | Some g \<Rightarrow>
         (case key_name of
            None \<Rightarrow> (case lookup_group kf g of None \<Rightarrow> None | Some grp \<Rightarrow> grp_comment grp)
          | Some k \<Rightarrow> (case lookup_entry kf g k of None \<Rightarrow> None | Some e \<Rightarrow> ent_comment e)))"

definition g_key_file_set_comment ::
  "keyfile \<Rightarrow> string option \<Rightarrow> string option \<Rightarrow> string \<Rightarrow> keyfile" where
  "g_key_file_set_comment kf grp_name key_name c =
     (case grp_name of
        None \<Rightarrow> kf\<lparr>top_comment := Some c\<rparr>
      | Some g \<Rightarrow>
         (case key_name of
            None \<Rightarrow>
              kf\<lparr>kf_groups :=
                   AList.map_entry g (\<lambda>grp. grp\<lparr>grp_comment := Some c\<rparr>) (kf_groups kf)\<rparr>
          | Some k \<Rightarrow>
              kf\<lparr>kf_groups :=
                   AList.map_entry g
                     (\<lambda>grp. grp\<lparr>grp_entries :=
                        AList.map_entry k (\<lambda>e. e\<lparr>ent_comment := Some c\<rparr>) (grp_entries grp)\<rparr>)
                     (kf_groups kf)\<rparr>))"

subsection \<open>The header of a presets file\<close>

definition PRESET_HEADER :: string where
  "PRESET_HEADER = ''_presets_''"

definition PRESET_HEADER_ELEMENT_NAME :: string where
  "PRESET_HEADER_ELEMENT_NAME = ''element-name''"

definition PRESET_HEADER_VERSION :: string where
  "PRESET_HEADER_VERSION = ''version''"

text \<open>The test \<^verbatim>\<open>groups[i][0] == '_'\<close> for a private group.\<close>

definition is_private :: "string \<Rightarrow> bool" where
  "is_private g = (case g of [] \<Rightarrow> False | c # _ \<Rightarrow> c = CHR ''_'')"

subsection \<open>\<^verbatim>\<open>preset_merge\<close>\<close>

text \<open>The inner loop over the keys of one group of the user file.\<close>

fun merge_keys :: "keyfile \<Rightarrow> keyfile \<Rightarrow> string \<Rightarrow> string list \<Rightarrow> keyfile" where
  "merge_keys system user g [] = system"
| "merge_keys system user g (k # keys) =
     (let system1 = (case g_key_file_get_comment user (Some g) (Some k) of
                       Some str \<Rightarrow> g_key_file_set_comment system (Some g) (Some k) str
                     | None \<Rightarrow> system);
          system2 = (case g_key_file_get_value user g k of
                       Some str \<Rightarrow> g_key_file_set_value system1 g k str
                     | None \<Rightarrow> system1)
      in merge_keys system2 user g keys)"

text \<open>
  The outer loop over the groups of the user file. The names come from
  \<^verbatim>\<open>g_key_file_get_groups (user)\<close>, so \<^verbatim>\<open>g_key_file_get_keys (user, ...)\<close> finds
  the group; for a missing group it returns \<^verbatim>\<open>NULL\<close>, and no key is copied.
\<close>

fun merge_groups :: "keyfile \<Rightarrow> keyfile \<Rightarrow> string list \<Rightarrow> keyfile" where
  "merge_groups system user [] = system"
| "merge_groups system user (g # groups) =
     (let system1 = (case g_key_file_get_comment user (Some g) None of
                       Some str \<Rightarrow> g_key_file_set_comment system (Some g) None str
                     | None \<Rightarrow> system)
      in if is_private g then merge_groups system1 user groups
         else
           (let system2 = (if g_key_file_has_group system1 g
                           then g_key_file_remove_group system1 g else system1);
                keys = (case g_key_file_get_keys user g of Some ks \<Rightarrow> ks | None \<Rightarrow> [])
            in merge_groups (merge_keys system2 user g keys) user groups))"

definition preset_merge :: "keyfile \<Rightarrow> keyfile \<Rightarrow> keyfile" where
  "preset_merge system user =
     (let system1 = (case g_key_file_get_comment user None None of
                       Some str \<Rightarrow> g_key_file_set_comment system None None str
                     | None \<Rightarrow> system)
      in merge_groups system1 user (g_key_file_get_groups user))"

subsection \<open>The environment: paths, file system, parser and printer\<close>

text \<open>
  What gstpreset.c takes from outside: the type name of the element
  (\<^verbatim>\<open>G_OBJECT_TYPE_NAME\<close>), the two paths that \<^verbatim>\<open>preset_get_paths\<close> computes and
  caches, \<^verbatim>\<open>PACKAGE_VERSION\<close>, the parser behind \<^verbatim>\<open>g_key_file_load_from_file\<close>, the
  printer \<^verbatim>\<open>g_key_file_to_data\<close> (\<open>None\<close> is its \<^verbatim>\<open>NULL\<close> result), and which calls
  of \<^verbatim>\<open>g_unlink\<close>, \<^verbatim>\<open>g_rename\<close> and \<^verbatim>\<open>g_file_set_contents\<close> the operating system
  refuses.
\<close>

record env =
  element_name :: string
  preset_user_path :: string
  preset_system_path :: string
  PACKAGE_VERSION :: string
  load_from_data :: "string \<Rightarrow> keyfile option"
  to_data :: "keyfile \<Rightarrow> string option"
  unlink_refused :: "string \<Rightarrow> bool"
  rename_refused :: "string \<Rightarrow> string \<Rightarrow> bool"
  write_refused :: "string \<Rightarrow> bool"

datatype syscall = Unlink string | Rename string string | Set_Contents string string

text \<open>
  The state that the functions change: the key file attached to the element type
  (\<^verbatim>\<open>g_type_get_qdata (type, preset_quark)\<close>; the C code changes this object in place
  through the pointer), the files, and the calls made so far that change files.
\<close>

record state =
  cache :: "keyfile option"
  files :: "string \<Rightarrow> string option"
  calls :: "syscall list"

definition g_file_test_exists :: "state \<Rightarrow> string \<Rightarrow> bool" where
  "g_file_test_exists st path = (files st path \<noteq> None)"

text \<open>\<^verbatim>\<open>g_unlink\<close> and \<^verbatim>\<open>g_rename\<close> return 0 on success and \<open>- 1\<close> otherwise.\<close>

definition g_unlink :: "env \<Rightarrow> string \<Rightarrow> state \<Rightarrow> int \<times> state" where
  "g_unlink e path st =
     (let st1 = st\<lparr>calls := calls st @ [Unlink path]\<rparr>
      in if files st path = None \<or> unlink_refused e path then (- 1, st1)
         else (0, st1\<lparr>files := (files st)(path := None)\<rparr>))"

definition g_rename :: "env \<Rightarrow> string \<Rightarrow> string \<Rightarrow> state \<Rightarrow> int \<times> state" where
  "g_rename e old new st =
     (let st1 = st\<lparr>calls := calls st @ [Rename old new]\<rparr>
      in if files st old = None \<or> rename_refused e old new then (- 1, st1)
         else (0, st1\<lparr>files := (files st)(old := None, new := files st old)\<rparr>))"

definition g_file_set_contents :: "env \<Rightarrow> string \<Rightarrow> string \<Rightarrow> state \<Rightarrow> bool \<times> state" where
  "g_file_set_contents e path data st =
     (let st1 = st\<lparr>calls := calls st @ [Set_Contents path data]\<rparr>
      in if write_refused e path then (False, st1)
         else (True, st1\<lparr>files := (files st)(path \<mapsto> data)\<rparr>))"

subsection \<open>\<^verbatim>\<open>preset_open_and_parse_header\<close>\<close>

text \<open>
  The result is the key file together with the version string of its header, or
  \<open>None\<close> for the \<^verbatim>\<open>NULL\<close> of the labels \<^verbatim>\<open>load_error\<close> and \<^verbatim>\<open>wrong_name\<close>.
\<close>

definition preset_open_and_parse_header ::
  "env \<Rightarrow> state \<Rightarrow> string \<Rightarrow> (keyfile \<times> string option) option" where
  "preset_open_and_parse_header e st preset_path =
     (case files st preset_path of
        None \<Rightarrow> None
      | Some text \<Rightarrow>
         (case load_from_data e text of
            None \<Rightarrow> None
          | Some in_file \<Rightarrow>
             (case g_key_file_get_value in_file PRESET_HEADER PRESET_HEADER_ELEMENT_NAME of
                None \<Rightarrow> None
              | Some name \<Rightarrow>
                 if name \<noteq> element_name e then None
                 else Some (in_file,
                        g_key_file_get_value in_file PRESET_HEADER PRESET_HEADER_VERSION))))"

subsection \<open>\<^verbatim>\<open>gst_preset_default_save_presets_file\<close> and \<^verbatim>\<open>preset_get_keyfile\<close>\<close>

text \<open>
  A run of a function either returns or, where the C code hands a \<^verbatim>\<open>NULL\<close> version
  string to \<^verbatim>\<open>sscanf\<close>, has no defined result.
\<close>

datatype 'a run = Undefined_Behaviour | Returns 'a

text \<open>
  The body of \<^verbatim>\<open>gst_preset_default_save_presets_file\<close> from the test of
  \<^verbatim>\<open>presets\<close> on; \<open>presets\<close> is the pointer that \<^verbatim>\<open>preset_get_keyfile\<close> returned
  (the cached object), so the new header version is written to the cache.
\<close>

definition save_presets_file_body :: "env \<Rightarrow> keyfile option \<Rightarrow> state \<Rightarrow> bool \<times> state" where
  "save_presets_file_body e presets st =
     (let preset_path = preset_user_path e
      in case presets of
           None \<Rightarrow> (let (r, st1) = g_unlink e preset_path st in (False, st1))
         | Some kf \<Rightarrow>
            (let bak_file_name = preset_path @ ''.bak'';
                 (backup, st1) =
                    (if g_file_test_exists st bak_file_name
                     then (let (r, s) = g_unlink e bak_file_name st
                           in if r \<noteq> 0 then (False, s) else (True, s))
                     else (True, st));
                 st2 = (if backup then snd (g_rename e preset_path bak_file_name st1) else st1);
                 kf1 = g_key_file_set_string kf PRESET_HEADER PRESET_HEADER_VERSION
                         (PACKAGE_VERSION e);
                 st3 = st2\<lparr>cache := Some kf1\<rparr>
             in case to_data e kf1 of
                  None \<Rightarrow> (False, st3)
                | Some data \<Rightarrow> g_file_set_contents e preset_path data st3))"

text \<open>
  The part of \<^verbatim>\<open>preset_get_keyfile\<close> that chooses the key file when none is cached:
  the chosen key file and \<^verbatim>\<open>updated_from_system\<close>.
\<close>

definition preset_resolve :: "env \<Rightarrow> state \<Rightarrow> (keyfile \<times> bool) run" where
  "preset_resolve e st =
     (let in_user = preset_open_and_parse_header e st (preset_user_path e);
          in_system = preset_open_and_parse_header e st (preset_system_path e)
      in case in_system of
           None \<Rightarrow>
             (case in_user of
                None \<Rightarrow>
                  Returns (g_key_file_set_string g_key_file_new PRESET_HEADER
                             PRESET_HEADER_ELEMENT_NAME (element_name e), False)
              | Some (user, str_version_user) \<Rightarrow> Returns (user, False))
         | Some (system, str_version_system) \<Rightarrow>
             (case in_user of
                None \<Rightarrow> Returns (system, False)
              | Some (user, str_version_user) \<Rightarrow>
                 (case str_version_system of
                    None \<Rightarrow> Undefined_Behaviour
                  | Some vs \<Rightarrow>
                     (case str_version_user of
                        None \<Rightarrow> Undefined_Behaviour
                      | Some vu \<Rightarrow>
                         if preset_parse_version vs > preset_parse_version vu
                         then Returns (preset_merge system user, True)
                         else Returns (user, False)))))"

text \<open>
  \<^verbatim>\<open>preset_get_keyfile\<close>. The call of \<^verbatim>\<open>gst_preset_default_save_presets_file\<close> at its
  end finds the key file in the cache, so it is the body above on the cached key file.
\<close>

definition preset_get_keyfile :: "env \<Rightarrow> state \<Rightarrow> (keyfile option \<times> state) run" where
  "preset_get_keyfile e st =
     (case cache st of
        Some presets \<Rightarrow> Returns (Some presets, st)
      | None \<Rightarrow>
         (case preset_resolve e st of
            Undefined_Behaviour \<Rightarrow> Undefined_Behaviour
          | Returns (presets, updated_from_system) \<Rightarrow>
             (let st1 = st\<lparr>cache := Some presets\<rparr>
              in if updated_from_system
                 then (let (r, st2) = save_presets_file_body e (cache st1) st1
                       in Returns (cache st2, st2))
                 else Returns (Some presets, st1))))"

definition gst_preset_default_save_presets_file :: "env \<Rightarrow> state \<Rightarrow> (bool \<times> state) run" where
  "gst_preset_default_save_presets_file e st =
     (case preset_get_keyfile e st of
        Undefined_Behaviour \<Rightarrow> Undefined_Behaviour
      | Returns (presets, st1) \<Rightarrow> Returns (save_presets_file_body e presets st1))"

subsection \<open>\<^verbatim>\<open>gst_preset_default_get_preset_names\<close>\<close>







subsection \<open>Properties of the element and \<^verbatim>\<open>gst_preset_default_load_preset\<close>\<close>

text \<open>
  A \<^verbatim>\<open>GParamSpec\<close> with the fields that gstpreset.c reads, and the flag bits of
  GObject.
\<close>

record pspec =
  ps_name :: string
  ps_flags :: "32 word"
  ps_value_type :: nat

definition G_PARAM_READWRITE :: "32 word" where
  "G_PARAM_READWRITE = 1 OR 2"

definition G_PARAM_CONSTRUCT_ONLY :: "32 word" where
  "G_PARAM_CONSTRUCT_ONLY = 8"

definition preset_skip_property :: "pspec \<Rightarrow> bool" where
  "preset_skip_property property =
     ((ps_flags property AND G_PARAM_READWRITE) \<noteq> G_PARAM_READWRITE
      \<or> (ps_flags property AND G_PARAM_CONSTRUCT_ONLY) \<noteq> 0)"

text \<open>
  \<open>class_props\<close> is the result of \<^verbatim>\<open>g_object_class_list_properties\<close> (\<open>None\<close> for
  \<^verbatim>\<open>NULL\<close>).
\<close>

definition gst_preset_default_get_property_names :: "pspec list option \<Rightarrow> string list option" where
  "gst_preset_default_get_property_names class_props =
     (case class_props of
        None \<Rightarrow> None
      | Some props \<Rightarrow> Some (map ps_name (filter (\<lambda>p. \<not> preset_skip_property p) props)))"

definition g_object_class_find_property :: "pspec list option \<Rightarrow> string \<Rightarrow> pspec option" where
  "g_object_class_find_property class_props name =
     (case class_props of None \<Rightarrow> None | Some props \<Rightarrow> find (\<lambda>p. ps_name p = name) props)"

datatype warning =
    Parameter_Not_In_Preset string
  | Property_Not_In_Object string
  | Deserialization_Failed string string

datatype failure = No_Presets | No_Group | No_Properties

text \<open>
  The loop of \<^verbatim>\<open>gst_preset_default_load_preset\<close> over the property names. The object
  is the map from property names to values, \<^verbatim>\<open>g_object_set_property\<close> stores a value
  in it, \<open>deserialize\<close> is \<^verbatim>\<open>gst_value_deserialize\<close> for a value type, and the
  warnings that the loop logs are collected.
\<close>

fun load_properties ::
  "keyfile \<Rightarrow> string \<Rightarrow> pspec list option \<Rightarrow> (nat \<Rightarrow> string \<Rightarrow> 'v option) \<Rightarrow> string list \<Rightarrow>
   (string \<Rightarrow> 'v option) \<times> warning list \<Rightarrow> (string \<Rightarrow> 'v option) \<times> warning list" where
  "load_properties presets name class_props deserialize [] (obj, log) = (obj, log)"
| "load_properties presets name class_props deserialize (p # props) (obj, log) =
     (case g_key_file_get_value presets name p of
        None \<Rightarrow>
          load_properties presets name class_props deserialize props
            (obj, log @ [Parameter_Not_In_Preset p])
      | Some str \<Rightarrow>
         (case g_object_class_find_property class_props p of
            None \<Rightarrow>
              load_properties presets name class_props deserialize props
                (obj, log @ [Property_Not_In_Object p])
          | Some property \<Rightarrow>
             (case deserialize (ps_value_type property) str of
                Some gvalue \<Rightarrow>
                  load_properties presets name class_props deserialize props
                    (obj(p \<mapsto> gvalue), log)
              | None \<Rightarrow>
                  load_properties presets name class_props deserialize props
                    (obj, log @ [Deserialization_Failed str p]))))"

text \<open>
  The C function returns \<^verbatim>\<open>FALSE\<close> at each of its three labels; \<open>Inl\<close> names the
  label, \<open>Inr\<close> is the return of \<^verbatim>\<open>TRUE\<close> with the object as the loop left it.
\<close>

definition gst_preset_default_load_preset ::
  "env \<Rightarrow> state \<Rightarrow> pspec list option \<Rightarrow> (nat \<Rightarrow> string \<Rightarrow> 'v option) \<Rightarrow>
   (string \<Rightarrow> 'v option) \<Rightarrow> string \<Rightarrow>
   ((failure + (string \<Rightarrow> 'v option) \<times> warning list) \<times> state) run" where
  "gst_preset_default_load_preset e st class_props deserialize obj name =
     (case preset_get_keyfile e st of
        Undefined_Behaviour \<Rightarrow> Undefined_Behaviour
      | Returns (presets, st1) \<Rightarrow>
         Returns
           (case presets of
              None \<Rightarrow> Inl No_Presets
            | Some kf \<Rightarrow>
               if \<not> g_key_file_has_group kf name then Inl No_Group
               else (case gst_preset_default_get_property_names class_props of
                       None \<Rightarrow> Inl No_Properties
                     | Some props \<Rightarrow>
                         Inr (load_properties kf name class_props deserialize props (obj, []))),
            st1))"

subsection \<open>\<^verbatim>\<open>gst_preset_default_rename_preset\<close>\<close>

text \<open>
  The loop over the keys of the old group; it reads from and writes to the same key
  file. The function has tested before that the old group exists.
\<close>

fun rename_keys :: "keyfile \<Rightarrow> string \<Rightarrow> string \<Rightarrow> string list \<Rightarrow> keyfile" where
  "rename_keys presets old_name new_name [] = presets"
| "rename_keys presets old_name new_name (k # keys) =
     (let presets1 = (case g_key_file_get_comment presets (Some old_name) (Some k) of
                        Some str \<Rightarrow> g_key_file_set_comment presets (Some new_name) (Some k) str
                      | None \<Rightarrow> presets);
          presets2 = (case g_key_file_get_value presets1 old_name k of
                        Some str \<Rightarrow> g_key_file_set_value presets1 new_name k str
                      | None \<Rightarrow> presets1)
      in rename_keys presets2 old_name new_name keys)"

definition rename_group :: "keyfile \<Rightarrow> string \<Rightarrow> string \<Rightarrow> keyfile" where
  "rename_group presets old_name new_name =
     (let presets1 = (case g_key_file_get_comment presets (Some old_name) None of
                        Some str \<Rightarrow> g_key_file_set_comment presets (Some new_name) None str
                      | None \<Rightarrow> presets);
          keys = (case g_key_file_get_keys presets1 old_name of Some ks \<Rightarrow> ks | None \<Rightarrow> [])
      in g_key_file_remove_group (rename_keys presets1 old_name new_name keys) old_name)"

definition gst_preset_default_rename_preset ::
  "env \<Rightarrow> state \<Rightarrow> string \<Rightarrow> string \<Rightarrow> ((failure + bool) \<times> state) run" where
  "gst_preset_default_rename_preset e st old_name new_name =
     (case preset_get_keyfile e st of
        Undefined_Behaviour \<Rightarrow> Undefined_Behaviour
      | Returns (presets, st1) \<Rightarrow>
         (case presets of
            None \<Rightarrow> Returns (Inl No_Presets, st1)
          | Some kf \<Rightarrow>
             if \<not> g_key_file_has_group kf old_name then Returns (Inl No_Group, st1)
             else (let st2 = st1\<lparr>cache := Some (rename_group kf old_name new_name)\<rparr>
                   in case gst_preset_default_save_presets_file e st2 of
                        Undefined_Behaviour \<Rightarrow> Undefined_Behaviour
                      | Returns (r, st3) \<Rightarrow> Returns (Inr r, st3))))"

subsection \<open>\<^verbatim>\<open>gst_preset_default_set_meta\<close> and \<^verbatim>\<open>gst_preset_default_get_meta\<close>\<close>




subsection \<open>The version ordinal as the specification words it\<close>


subsection \<open>Example documents\<close>

definition group_of :: "(string \<times> string) list \<Rightarrow> kf_group" where
  "group_of kvs =
     \<lparr>grp_comment = None,
      grp_entries = map (\<lambda>(k, v). (k, \<lparr>ent_value = v, ent_comment = None\<rparr>)) kvs\<rparr>"


text \<open>
  A system file of version 1.2 and a user file of version 1.1 for the element type
  \<open>E\<close>; the user file has comments on its header, on its preset \<open>A\<close> and on a key.
\<close>

definition doc_system_example :: keyfile where
  "doc_system_example =
     \<lparr>top_comment = None,
      kf_groups =
        [(''_presets_'', group_of [(''element-name'', ''E''), (''version'', ''1.2'')]),
         (''A'', group_of [(''x'', ''1''), (''y'', ''2'')]),
         (''B'', group_of [(''x'', ''3'')])]\<rparr>"

definition doc_user_example :: keyfile where
  "doc_user_example =
     \<lparr>top_comment = None,
      kf_groups =
        [(''_presets_'',
          \<lparr>grp_comment = Some ''user header'',
           grp_entries = [(''element-name'', \<lparr>ent_value = ''E'', ent_comment = None\<rparr>),
                          (''version'', \<lparr>ent_value = ''1.1'', ent_comment = None\<rparr>)]\<rparr>),
         (''A'',
          \<lparr>grp_comment = Some ''my preset'',
           grp_entries = [(''x'', \<lparr>ent_value = ''7'', ent_comment = Some ''louder''\<rparr>)]\<rparr>)]\<rparr>"

text \<open>
  An environment for the examples: the paths of the element type \<open>E\<close>, a parser that
  knows the text of the two example files, a printer that writes the group names, and
  an operating system that refuses nothing.
\<close>

definition env_example :: env where
  "env_example =
     \<lparr>element_name = ''E'',
      preset_user_path = ''/home/u/E.prs'',
      preset_system_path = ''/usr/share/E.prs'',
      PACKAGE_VERSION = ''0.10.30'',
      load_from_data =
        (\<lambda>text. if text = ''user text'' then Some doc_user_example
                else if text = ''system text'' then Some doc_system_example else None),
      to_data = (\<lambda>kf. Some (concat (map (\<lambda>g. ''['' @ g @ '']'') (g_key_file_get_groups kf)))),
      unlink_refused = (\<lambda>path. False),
      rename_refused = (\<lambda>old new. False),
      write_refused = (\<lambda>path. False)\<rparr>"


text \<open>The user file is cached, and the user file and a backup of it are on disk.\<close>

definition state_cached :: state where
  "state_cached =
     \<lparr>cache = Some doc_user_example,
      files = [''/home/u/E.prs'' \<mapsto> ''user text'', ''/home/u/E.prs.bak'' \<mapsto> ''old text''],
      calls = []\<rparr>"

text \<open>A key file with the header only is cached, and a user file is on disk.\<close>

definition doc_header_only :: keyfile where
  "doc_header_only =
     \<lparr>top_comment = None, kf_groups = [(''_presets_'', group_of [(''element-name'', ''E'')])]\<rparr>"

definition state_no_presets :: state where
  "state_no_presets =
     \<lparr>cache = Some doc_header_only,
      files = [''/home/u/E.prs'' \<mapsto> ''user text''],
      calls = []\<rparr>"



text \<open>The key file after the save has written the running version into its header.\<close>

abbreviation version_stamped :: "env \<Rightarrow> keyfile \<Rightarrow> keyfile" where
  "version_stamped e kf \<equiv>
     g_key_file_set_string kf PRESET_HEADER PRESET_HEADER_VERSION (PACKAGE_VERSION e)"

text \<open>
  A key file whose preset \<open>A\<close> has a value for \<open>x\<close>, none for \<open>y\<close> and one for
  \<open>z\<close> that does not parse; an element class with the properties \<open>x\<close>, \<open>y\<close>, \<open>z\<close>
  (readable and writable) and \<open>name\<close> (construct only); and a deserializer of
  decimal digits.
\<close>

definition doc_load_example :: keyfile where
  "doc_load_example =
     \<lparr>top_comment = None,
      kf_groups =
        [(''_presets_'', group_of [(''element-name'', ''E''), (''version'', ''0.10.30'')]),
         (''A'', group_of [(''x'', ''7''), (''z'', ''oops'')])]\<rparr>"

definition state_load_example :: state where
  "state_load_example = \<lparr>cache = Some doc_load_example, files = Map.empty, calls = []\<rparr>"

definition class_example :: "pspec list" where
  "class_example =
     [\<lparr>ps_name = ''name'', ps_flags = 1 OR 2 OR 8, ps_value_type = 0\<rparr>,
      \<lparr>ps_name = ''x'', ps_flags = 1 OR 2, ps_value_type = 1\<rparr>,
      \<lparr>ps_name = ''y'', ps_flags = 1 OR 2, ps_value_type = 1\<rparr>,
      \<lparr>ps_name = ''z'', ps_flags = 1 OR 2, ps_value_type = 1\<rparr>]"

definition deserialize_example :: "nat \<Rightarrow> string \<Rightarrow> int option" where
  "deserialize_example value_type str =
     (if str \<noteq> [] \<and> list_all isdigit str then Some (decimal 0 str) else None)"

definition object_example :: "string \<Rightarrow> int option" where
  "object_example = [''x'' \<mapsto> 1, ''y'' \<mapsto> 2, ''z'' \<mapsto> 3]"

section \<open>Properties\<close>

subsection \<open>Unfolding the definitions on the examples\<close>


lemmas header_defs = PRESET_HEADER_def PRESET_HEADER_VERSION_def PRESET_HEADER_ELEMENT_NAME_def

lemmas kf_ops =
  g_key_file_set_string_def g_key_file_set_value_def g_key_file_get_groups_def
  g_key_file_get_value_def g_key_file_get_comment_def g_key_file_has_group_def
  g_key_file_get_keys_def g_key_file_set_comment_def g_key_file_remove_group_def
  g_key_file_remove_key_def lookup_entry_def lookup_group_def is_private_def

lemmas doc_eval =
  g_key_file_get_value_def g_key_file_get_comment_def g_key_file_has_group_def
  lookup_entry_def lookup_group_def is_private_def group_of_def

lemmas fs_defs = g_unlink_def g_rename_def g_file_set_contents_def g_file_test_exists_def

lemmas class_defs =
  gst_preset_default_get_property_names_def preset_skip_property_def
  G_PARAM_READWRITE_def G_PARAM_CONSTRUCT_ONLY_def g_object_class_find_property_def

lemmas example_defs =
  env_example_def state_cached_def doc_user_example_def doc_system_example_def group_of_def

subsection \<open>The version ordinal\<close>















subsection \<open>The list of preset names\<close>


subsection \<open>The key file\<close>



lemma lookup_group_set_value:
  "lookup_group (g_key_file_set_value kf g k v) g' =
     (if g' = g
      then Some (case lookup_group kf g of
                   None \<Rightarrow> \<lparr>grp_comment = None, grp_entries = [(k, \<lparr>ent_value = v, ent_comment = None\<rparr>)]\<rparr>
                 | Some grp \<Rightarrow> grp\<lparr>grp_entries :=
                      map_default k \<lparr>ent_value = v, ent_comment = None\<rparr> (\<lambda>e. e\<lparr>ent_value := v\<rparr>) (grp_entries grp)\<rparr>)
      else lookup_group kf g')"
  by (simp add: lookup_group_def g_key_file_set_value_def Let_def map_of_map_default split: option.splits)


lemma has_group_set_value:
  "g_key_file_has_group (g_key_file_set_value kf g k v) g' = (g' = g \<or> g_key_file_has_group kf g')"
  by (simp add: g_key_file_has_group_def lookup_group_set_value)

lemma lookup_group_remove_group:
  "lookup_group (g_key_file_remove_group kf g) g' = (if g' = g then None else lookup_group kf g')"
  by (simp add: lookup_group_def g_key_file_remove_group_def delete_conv')


lemma has_group_remove_group:
  "g_key_file_has_group (g_key_file_remove_group kf g) g' = (g' \<noteq> g \<and> g_key_file_has_group kf g')"
  by (simp add: g_key_file_has_group_def lookup_group_remove_group)

lemma lookup_group_remove_key:
  "lookup_group (g_key_file_remove_key kf g k) g' =
     (if g' = g then map_option (\<lambda>grp. grp\<lparr>grp_entries := AList.delete k (grp_entries grp)\<rparr>) (lookup_group kf g)
      else lookup_group kf g')"
  by (simp add: lookup_group_def g_key_file_remove_key_def map_of_map_entry split: option.splits)


lemma has_group_remove_key:
  "g_key_file_has_group (g_key_file_remove_key kf g k) g' = g_key_file_has_group kf g'"
  by (simp add: g_key_file_has_group_def lookup_group_remove_key)

lemma lookup_group_set_comment:
  "lookup_group (g_key_file_set_comment kf go ko c) g' =
    (case go of None \<Rightarrow> lookup_group kf g'
     | Some g \<Rightarrow> if g' \<noteq> g then lookup_group kf g'
        else (case ko of None \<Rightarrow> map_option (\<lambda>grp. grp\<lparr>grp_comment := Some c\<rparr>) (lookup_group kf g)
              | Some k \<Rightarrow> map_option (\<lambda>grp. grp\<lparr>grp_entries :=
                        AList.map_entry k (\<lambda>e. e\<lparr>ent_comment := Some c\<rparr>) (grp_entries grp)\<rparr>) (lookup_group kf g)))"
  by (simp add: lookup_group_def g_key_file_set_comment_def map_of_map_entry split: option.splits)




subsection \<open>The merge\<close>







lemma group_comment_set_value:
  "g_key_file_get_comment (g_key_file_set_value kf g k v) (Some g') None
   = g_key_file_get_comment kf (Some g') None"
  by (simp add: g_key_file_get_comment_def lookup_group_set_value split: option.splits)

lemma group_comment_set_comment:
  "g_key_file_get_comment (g_key_file_set_comment kf (Some g) ko c) (Some g') None
   = (if g' = g \<and> ko = None \<and> g_key_file_has_group kf g then Some c
      else g_key_file_get_comment kf (Some g') None)"
  by (auto simp add: g_key_file_get_comment_def lookup_group_set_comment g_key_file_has_group_def
      split: option.splits)


lemma group_comment_remove_group:
  "g_key_file_get_comment (g_key_file_remove_group kf g) (Some g') None
   = (if g' = g then None else g_key_file_get_comment kf (Some g') None)"
  by (simp add: g_key_file_get_comment_def lookup_group_remove_group)

lemma group_comment_merge_keys:
  "g_key_file_get_comment (merge_keys sys usr g ks) (Some g') None
   = g_key_file_get_comment sys (Some g') None"
  by (induction ks arbitrary: sys)
    (simp_all add: Let_def group_comment_set_value group_comment_set_comment split: option.splits)





lemma group_comment_None_no_group:
  "\<not> g_key_file_has_group kf g \<Longrightarrow> g_key_file_get_comment kf (Some g) None = None"
  by (simp add: g_key_file_has_group_def g_key_file_get_comment_def)

lemma public_comment_merge_groups:
  assumes "\<not> is_private g'"
  shows "g_key_file_get_comment (merge_groups sys usr gs) (Some g') None
   = (if g' \<in> set gs then None else g_key_file_get_comment sys (Some g') None)"
proof (induction gs arbitrary: sys)
  case Nil
  show ?case by simp
next
  case (Cons g gs)
  let ?sys1 = "case g_key_file_get_comment usr (Some g) None of
                 Some str \<Rightarrow> g_key_file_set_comment sys (Some g) None str | None \<Rightarrow> sys"
  show ?case
  proof (cases "is_private g")
    case True
    with assms have ne: "g' \<noteq> g" by auto
    have c: "g_key_file_get_comment ?sys1 (Some g') None = g_key_file_get_comment sys (Some g') None"
      using ne by (simp add: group_comment_set_comment split: option.splits)
    have step: "merge_groups sys usr (g # gs) = merge_groups ?sys1 usr gs"
      using True by (simp add: Let_def)
    show ?thesis unfolding step Cons.IH c using ne by simp
  next
    case False
    let ?sys2 = "if g_key_file_has_group ?sys1 g then g_key_file_remove_group ?sys1 g else ?sys1"
    let ?keys = "case g_key_file_get_keys usr g of Some ks \<Rightarrow> ks | None \<Rightarrow> []"
    have step: "merge_groups sys usr (g # gs) = merge_groups (merge_keys ?sys2 usr g ?keys) usr gs"
      using False by (simp add: Let_def)
    have c2: "g_key_file_get_comment ?sys2 (Some g') None
       = (if g' = g then None else g_key_file_get_comment sys (Some g') None)"
    proof (cases "g_key_file_has_group ?sys1 g")
      case True
      then show ?thesis
        by (simp add: group_comment_remove_group group_comment_set_comment split: option.splits)
    next
      case False
      then have "g_key_file_get_comment ?sys1 (Some g) None = None"
        by (rule group_comment_None_no_group)
      then show ?thesis using False
        by (auto simp add: group_comment_set_comment split: option.splits)
    qed
    show ?thesis unfolding step Cons.IH group_comment_merge_keys c2 by simp
  qed
qed




text \<open>
  The comments of a group that is not private do not arrive: the group comment is set
  before the group is removed and created again, and the key comment is set before
  the key exists.
\<close>

lemma preset_merge_loses_comments:
  "g_key_file_get_comment doc_user_example (Some ''A'') None = Some ''my preset'' \<and>
   g_key_file_get_comment doc_user_example (Some ''A'') (Some ''x'') = Some ''louder'' \<and>
   g_key_file_get_comment (preset_merge doc_system_example doc_user_example) (Some ''A'') None = None \<and>
   g_key_file_get_comment (preset_merge doc_system_example doc_user_example) (Some ''A'') (Some ''x'')
     = None"
  by (simp add: doc_eval doc_system_example_def doc_user_example_def preset_merge_def
    g_key_file_get_groups_def g_key_file_set_comment_def g_key_file_get_keys_def
    g_key_file_remove_group_def g_key_file_set_value_def)

subsection \<open>Saving the presets file\<close>

lemma save_body_cache:
  "cache (snd (save_presets_file_body e (Some kf) st))
   = Some (g_key_file_set_string kf PRESET_HEADER PRESET_HEADER_VERSION (PACKAGE_VERSION e))"
  by (simp add: save_presets_file_body_def fs_defs Let_def split: option.splits prod.splits)

lemma save_body_result:
  "fst (save_presets_file_body e (Some kf) st)
   = (to_data e (g_key_file_set_string kf PRESET_HEADER PRESET_HEADER_VERSION (PACKAGE_VERSION e))
        \<noteq> None \<and> \<not> write_refused e (preset_user_path e))"
  by (simp add: save_presets_file_body_def fs_defs Let_def split: option.splits prod.splits)

lemma save_body_calls:
  "calls (snd (save_presets_file_body e (Some kf) st))
   = calls st
     @ (if files st (preset_user_path e @ ''.bak'') \<noteq> None
        then [Unlink (preset_user_path e @ ''.bak'')] else [])
     @ (if files st (preset_user_path e @ ''.bak'') \<noteq> None
           \<and> unlink_refused e (preset_user_path e @ ''.bak'')
        then [] else [Rename (preset_user_path e) (preset_user_path e @ ''.bak'')])
     @ (case to_data e (g_key_file_set_string kf PRESET_HEADER PRESET_HEADER_VERSION
                          (PACKAGE_VERSION e)) of
          None \<Rightarrow> [] | Some data \<Rightarrow> [Set_Contents (preset_user_path e) data])"
  by (simp add: save_presets_file_body_def fs_defs Let_def split: option.splits prod.splits)

lemma save_body_written:
  assumes "to_data e (g_key_file_set_string kf PRESET_HEADER PRESET_HEADER_VERSION
                        (PACKAGE_VERSION e)) = Some data"
    and "\<not> write_refused e (preset_user_path e)"
  shows "files (snd (save_presets_file_body e (Some kf) st)) (preset_user_path e) = Some data"
  using assms
  by (simp add: save_presets_file_body_def fs_defs Let_def split: option.splits prod.splits)

lemma preset_get_keyfile_cached:
  "cache st = Some kf \<Longrightarrow> preset_get_keyfile e st = Returns (Some kf, st)"
  by (simp add: preset_get_keyfile_def)

lemma preset_get_keyfile_result:
  assumes "preset_get_keyfile e st = Returns (p, st1)"
  shows "p \<noteq> None \<and> cache st1 = p"
proof (cases "cache st")
  case (Some kf)
  with assms have "p = Some kf" "st1 = st" by (simp_all add: preset_get_keyfile_def)
  with Some show ?thesis by simp
next
  case None
  show ?thesis
  proof (cases "preset_resolve e st")
    case Undefined_Behaviour
    with None assms show ?thesis by (simp add: preset_get_keyfile_def)
  next
    case (Returns pr)
    obtain presets upd where pr: "pr = (presets, upd)" by (cases pr)
    show ?thesis
    proof (cases upd)
      case True
      let ?b = "save_presets_file_body e (Some presets) (st\<lparr>cache := Some presets\<rparr>)"
      from None Returns pr True assms have "p = cache (snd ?b)" "st1 = snd ?b"
        by (simp_all add: preset_get_keyfile_def Let_def split: prod.splits)
      then show ?thesis by (simp add: save_body_cache)
    next
      case False
      with None Returns pr assms show ?thesis
        by (auto simp add: preset_get_keyfile_def Let_def)
    qed
  qed
qed

lemma save_presets_file_cached:
  "cache st = Some kf \<Longrightarrow>
   gst_preset_default_save_presets_file e st = Returns (save_presets_file_body e (Some kf) st)"
  by (simp add: gst_preset_default_save_presets_file_def preset_get_keyfile_cached)


text \<open>
  Claim C5, as the code has it. A save first unlinks the backup file when there is
  one, then renames the user file to the backup name unless that unlink failed, and
  then prints and writes the key file. Whether the save succeeds depends on the
  printer and on the write only, not on the unlink and the rename.
\<close>

theorem backup_rotation:
  assumes "preset_get_keyfile e st = Returns (Some kf, st1)"
  shows "\<exists>r st2. gst_preset_default_save_presets_file e st = Returns (r, st2) \<and>
     calls st2
       = calls st1
         @ (if files st1 (preset_user_path e @ ''.bak'') \<noteq> None
            then [Unlink (preset_user_path e @ ''.bak'')] else [])
         @ (if files st1 (preset_user_path e @ ''.bak'') \<noteq> None
               \<and> unlink_refused e (preset_user_path e @ ''.bak'')
            then [] else [Rename (preset_user_path e) (preset_user_path e @ ''.bak'')])
         @ (case to_data e (g_key_file_set_string kf PRESET_HEADER PRESET_HEADER_VERSION
                              (PACKAGE_VERSION e)) of
              None \<Rightarrow> [] | Some data \<Rightarrow> [Set_Contents (preset_user_path e) data]) \<and>
     r = (to_data e (g_key_file_set_string kf PRESET_HEADER PRESET_HEADER_VERSION
                       (PACKAGE_VERSION e)) \<noteq> None
          \<and> \<not> write_refused e (preset_user_path e))"
proof -
  let ?b = "save_presets_file_body e (Some kf) st1"
  have "gst_preset_default_save_presets_file e st = Returns (fst ?b, snd ?b)"
    using assms by (simp add: gst_preset_default_save_presets_file_def)
  then show ?thesis
    using save_body_calls [of e kf st1] save_body_result [of e kf st1] by blast
qed

theorem backup_rotation_witness:
  "preset_get_keyfile (env_example\<lparr>rename_refused := \<lambda>old new. True\<rparr>) state_cached
     = Returns (Some doc_user_example, state_cached) \<and>
   (\<exists>st2. gst_preset_default_save_presets_file
            (env_example\<lparr>rename_refused := \<lambda>old new. True\<rparr>) state_cached
          = Returns (True, st2) \<and>
        calls st2 = [Unlink ''/home/u/E.prs.bak'', Rename ''/home/u/E.prs'' ''/home/u/E.prs.bak'',
                     Set_Contents ''/home/u/E.prs'' ''[_presets_][A]''])"
proof -
  have h: "preset_get_keyfile (env_example\<lparr>rename_refused := \<lambda>old new. True\<rparr>) state_cached
     = Returns (Some doc_user_example, state_cached)"
    by (simp add: preset_get_keyfile_def state_cached_def)
  show ?thesis
    using h backup_rotation [OF h]
    by (auto simp add: example_defs kf_ops header_defs)
qed

text \<open>
  Claim C5 as stated fails: when the old backup cannot be removed, \<^verbatim>\<open>backup\<close> is
  \<^verbatim>\<open>FALSE\<close> and the rename is not attempted.
\<close>

theorem backup_rotation_counterexample:
  "(case gst_preset_default_save_presets_file
           (env_example\<lparr>unlink_refused := \<lambda>path. True\<rparr>) state_cached of
      Returns (r, st2) \<Rightarrow>
        r \<and> calls st2 = [Unlink ''/home/u/E.prs.bak'',
                          Set_Contents ''/home/u/E.prs'' ''[_presets_][A]'']
    | Undefined_Behaviour \<Rightarrow> False)"
  by (simp add: gst_preset_default_save_presets_file_def preset_get_keyfile_def
      save_presets_file_body_def fs_defs example_defs kf_ops header_defs Let_def)


lemma map_default_idem:
  assumes "f d = d" and "\<And>x. f (f x) = f x"
  shows "map_default k d f (map_default k d f xs) = map_default k d f xs"
  using assms by (induction xs) auto

lemma set_value_idem:
  "g_key_file_set_value (g_key_file_set_value kf g k v) g k v = g_key_file_set_value kf g k v"
  by (simp add: g_key_file_set_value_def Let_def map_default_idem)

lemma top_comment_set_value:
  "top_comment (g_key_file_set_value kf g k v) = top_comment kf"
  by (simp add: g_key_file_set_value_def Let_def)

lemma lookup_entry_set_value_other:
  "k' \<noteq> k \<Longrightarrow> lookup_entry (g_key_file_set_value kf g k v) g k' = lookup_entry kf g k'"
  by (simp add: lookup_entry_def lookup_group_set_value map_of_map_default split: option.splits)

text \<open>
  Claim C4, as the code has it. When the printer or the write fails, the save returns
  \<^verbatim>\<open>FALSE\<close> and the cached key file is the one before the save with the running
  version written into its header: the comment at the top, every other group and every
  other key of the header are as before. Writing the version again changes nothing, so
  a second save prints the same key file.
\<close>

theorem failed_save_keeps_document:
  assumes "preset_get_keyfile e st = Returns (Some kf, st1)"
    and "to_data e (version_stamped e kf) = None \<or> write_refused e (preset_user_path e)"
  shows "\<exists>st2. gst_preset_default_save_presets_file e st = Returns (False, st2) \<and>
     cache st2 = Some (version_stamped e kf) \<and>
     top_comment (version_stamped e kf) = top_comment kf \<and>
     (\<forall>g. g \<noteq> PRESET_HEADER \<longrightarrow> lookup_group (version_stamped e kf) g = lookup_group kf g) \<and>
     (\<forall>k. k \<noteq> PRESET_HEADER_VERSION \<longrightarrow>
        lookup_entry (version_stamped e kf) PRESET_HEADER k = lookup_entry kf PRESET_HEADER k) \<and>
     version_stamped e (version_stamped e kf) = version_stamped e kf \<and>
     (\<exists>r st3. gst_preset_default_save_presets_file e st2 = Returns (r, st3) \<and>
        cache st3 = Some (version_stamped e kf))"
proof -
  let ?b = "save_presets_file_body e (Some kf) st1"
  let ?k = "version_stamped e kf"
  have s: "gst_preset_default_save_presets_file e st = Returns (fst ?b, snd ?b)"
    using assms(1) by (simp add: gst_preset_default_save_presets_file_def)
  have r: "fst ?b = False"
    using assms(2) by (auto simp add: save_body_result)
  have c: "cache (snd ?b) = Some ?k" by (rule save_body_cache)
  have i: "version_stamped e ?k = ?k"
    by (simp add: g_key_file_set_string_def set_value_idem)
  let ?b2 = "save_presets_file_body e (Some ?k) (snd ?b)"
  have s2: "gst_preset_default_save_presets_file e (snd ?b) = Returns (fst ?b2, snd ?b2)"
    using c by (simp add: save_presets_file_cached)
  have c2: "cache (snd ?b2) = Some ?k"
    using save_body_cache [of e ?k "snd ?b"] i by simp
  have t: "top_comment ?k = top_comment kf"
    by (simp add: g_key_file_set_string_def top_comment_set_value)
  have g: "\<forall>g. g \<noteq> PRESET_HEADER \<longrightarrow> lookup_group ?k g = lookup_group kf g"
    by (simp add: g_key_file_set_string_def lookup_group_set_value)
  have k: "\<forall>k. k \<noteq> PRESET_HEADER_VERSION \<longrightarrow>
        lookup_entry ?k PRESET_HEADER k = lookup_entry kf PRESET_HEADER k"
    by (simp add: g_key_file_set_string_def lookup_entry_set_value_other)
  from s r have s': "gst_preset_default_save_presets_file e st = Returns (False, snd ?b)"
    by simp
  from s2 c2 have inner: "\<exists>r st3. gst_preset_default_save_presets_file e (snd ?b) = Returns (r, st3)
      \<and> cache st3 = Some ?k" by blast
  from s' c t g k i inner show ?thesis by blast
qed

theorem failed_save_keeps_document_witness:
  "preset_get_keyfile (env_example\<lparr>write_refused := \<lambda>path. True\<rparr>) state_cached
     = Returns (Some doc_user_example, state_cached) \<and>
   write_refused (env_example\<lparr>write_refused := \<lambda>path. True\<rparr>)
     (preset_user_path (env_example\<lparr>write_refused := \<lambda>path. True\<rparr>)) \<and>
   (\<exists>st2. gst_preset_default_save_presets_file
            (env_example\<lparr>write_refused := \<lambda>path. True\<rparr>) state_cached
          = Returns (False, st2) \<and>
      cache st2 = Some (g_key_file_set_value doc_user_example ''_presets_'' ''version'' ''0.10.30''))"
proof -
  let ?e = "env_example\<lparr>write_refused := \<lambda>path. True\<rparr>"
  have h: "preset_get_keyfile ?e state_cached = Returns (Some doc_user_example, state_cached)"
    by (simp add: preset_get_keyfile_def state_cached_def)
  have w: "write_refused ?e (preset_user_path ?e)" by simp
  then have w': "to_data ?e (version_stamped ?e doc_user_example) = None
      \<or> write_refused ?e (preset_user_path ?e)" ..
  have v: "version_stamped ?e doc_user_example
      = g_key_file_set_value doc_user_example ''_presets_'' ''version'' ''0.10.30''"
    by (simp add: g_key_file_set_string_def header_defs env_example_def)
  from failed_save_keeps_document [OF h w'] obtain st2 where
    "gst_preset_default_save_presets_file ?e state_cached = Returns (False, st2)"
    "cache st2 = Some (version_stamped ?e doc_user_example)" by blast
  with h w v show ?thesis by auto
qed

text \<open>
  Claim C4 as stated fails: the version in the header is written before the key file
  is printed, so after a failed save the key file in memory is not the one before.
\<close>

theorem failed_save_counterexample:
  "g_key_file_get_value doc_user_example PRESET_HEADER PRESET_HEADER_VERSION = Some ''1.1'' \<and>
   (case gst_preset_default_save_presets_file
           (env_example\<lparr>write_refused := \<lambda>path. True\<rparr>) state_cached of
      Returns (r, st2) \<Rightarrow>
        \<not> r \<and> cache st2 \<noteq> cache state_cached \<and>
        (case cache st2 of
           Some kf \<Rightarrow> g_key_file_get_value kf PRESET_HEADER PRESET_HEADER_VERSION = Some ''0.10.30''
         | None \<Rightarrow> False)
    | Undefined_Behaviour \<Rightarrow> False)"
  by (simp add: gst_preset_default_save_presets_file_def preset_get_keyfile_def
      save_presets_file_body_def fs_defs example_defs kf_ops header_defs Let_def)


lemma bak_name_differs: "path @ ''.bak'' \<noteq> path"
  by (metis append_self_conv list.distinct(1))

text \<open>
  Claim C7, as the code has it. \<^verbatim>\<open>preset_get_keyfile\<close> never returns \<^verbatim>\<open>NULL\<close>, so the
  label \<^verbatim>\<open>no_presets\<close>, where the user file is unlinked, is not reached. A key file
  without a preset group is saved like every other key file: when the printer and the
  write succeed the save returns \<^verbatim>\<open>TRUE\<close>, the printed text is in the user file, and
  the save has not unlinked the user file.
\<close>

theorem persist_without_presets:
  "(preset_get_keyfile e st = Returns (p, st1) \<longrightarrow> p \<noteq> None) \<and>
   (preset_get_keyfile e st = Returns (Some kf, st1)
      \<and> filter (\<lambda>g. \<not> is_private g) (g_key_file_get_groups kf) = []
      \<and> to_data e (version_stamped e kf) = Some data
      \<and> \<not> write_refused e (preset_user_path e) \<longrightarrow>
    (\<exists>st2. gst_preset_default_save_presets_file e st = Returns (True, st2) \<and>
       files st2 (preset_user_path e) = Some data \<and>
       Unlink (preset_user_path e) \<notin> set (drop (length (calls st1)) (calls st2))))"
proof (intro conjI impI)
  assume "preset_get_keyfile e st = Returns (p, st1)"
  then show "p \<noteq> None" using preset_get_keyfile_result by blast
next
  assume h: "preset_get_keyfile e st = Returns (Some kf, st1)
      \<and> filter (\<lambda>g. \<not> is_private g) (g_key_file_get_groups kf) = []
      \<and> to_data e (version_stamped e kf) = Some data
      \<and> \<not> write_refused e (preset_user_path e)"
  let ?b = "save_presets_file_body e (Some kf) st1"
  have s: "gst_preset_default_save_presets_file e st = Returns (fst ?b, snd ?b)"
    using h by (simp add: gst_preset_default_save_presets_file_def)
  have r: "fst ?b = True" using h by (simp add: save_body_result)
  have f: "files (snd ?b) (preset_user_path e) = Some data"
    using h by (simp add: save_body_written)
  have u: "Unlink (preset_user_path e) \<notin> set (drop (length (calls st1)) (calls (snd ?b)))"
    using h bak_name_differs [of "preset_user_path e"] by (simp add: save_body_calls)
  from s r have "gst_preset_default_save_presets_file e st = Returns (True, snd ?b)" by simp
  with f u show "\<exists>st2. gst_preset_default_save_presets_file e st = Returns (True, st2) \<and>
       files st2 (preset_user_path e) = Some data \<and>
       Unlink (preset_user_path e) \<notin> set (drop (length (calls st1)) (calls st2))" by blast
qed

theorem persist_without_presets_witness:
  "preset_get_keyfile env_example state_no_presets = Returns (Some doc_header_only, state_no_presets) \<and>
   filter (\<lambda>g. \<not> is_private g) (g_key_file_get_groups doc_header_only) = [] \<and>
   to_data env_example (version_stamped env_example doc_header_only) = Some ''[_presets_]'' \<and>
   \<not> write_refused env_example (preset_user_path env_example) \<and>
   (\<exists>st2. gst_preset_default_save_presets_file env_example state_no_presets = Returns (True, st2) \<and>
      files st2 ''/home/u/E.prs'' = Some ''[_presets_]'')"
proof -
  have h: "preset_get_keyfile env_example state_no_presets
      = Returns (Some doc_header_only, state_no_presets)"
    by (simp add: preset_get_keyfile_def state_no_presets_def)
  have z: "filter (\<lambda>g. \<not> is_private g) (g_key_file_get_groups doc_header_only) = []"
    by (simp add: doc_header_only_def group_of_def kf_ops)
  have d: "to_data env_example (version_stamped env_example doc_header_only) = Some ''[_presets_]''"
    by (simp add: env_example_def doc_header_only_def group_of_def kf_ops header_defs)
  have w: "\<not> write_refused env_example (preset_user_path env_example)"
    by (simp add: env_example_def)
  have p: "preset_user_path env_example = ''/home/u/E.prs''" by (simp add: env_example_def)
  from persist_without_presets [of env_example state_no_presets "Some doc_header_only"
      state_no_presets doc_header_only "''[_presets_]''"] h z d w
  obtain st2 where
    "gst_preset_default_save_presets_file env_example state_no_presets = Returns (True, st2)"
    "files st2 (preset_user_path env_example) = Some ''[_presets_]''" by blast
  with h z d w p show ?thesis by auto
qed

text \<open>
  Claim C7 as stated fails: the save of a key file that has only its header writes
  the user file.
\<close>

theorem persist_without_presets_counterexample:
  "filter (\<lambda>g. \<not> is_private g) (g_key_file_get_groups doc_header_only) = [] \<and>
   cache state_no_presets = Some doc_header_only \<and>
   files state_no_presets ''/home/u/E.prs'' = Some ''user text'' \<and>
   (case gst_preset_default_save_presets_file env_example state_no_presets of
      Returns (r, st2) \<Rightarrow>
        r \<and> files st2 ''/home/u/E.prs'' = Some ''[_presets_]'' \<and>
        calls st2 = [Rename ''/home/u/E.prs'' ''/home/u/E.prs.bak'',
                     Set_Contents ''/home/u/E.prs'' ''[_presets_]'']
    | Undefined_Behaviour \<Rightarrow> False)"
  by (simp add: gst_preset_default_save_presets_file_def preset_get_keyfile_def
      save_presets_file_body_def fs_defs env_example_def state_no_presets_def doc_header_only_def
      group_of_def kf_ops header_defs Let_def)


subsection \<open>Choosing the key file by version\<close>



lemma is_private_header: "is_private PRESET_HEADER"
  by (simp add: is_private_def PRESET_HEADER_def)



subsection \<open>Loading a preset\<close>


lemma load_properties_obj:
  "fst (load_properties kf name cp d ps (obj, log)) p =
     (if p \<in> set ps
      then (case g_key_file_get_value kf name p of
              None \<Rightarrow> obj p
            | Some s \<Rightarrow>
               (case g_object_class_find_property cp p of
                  None \<Rightarrow> obj p
                | Some q \<Rightarrow> (case d (ps_value_type q) s of None \<Rightarrow> obj p | Some v \<Rightarrow> Some v)))
      else obj p)"
  by (induction ps arbitrary: obj log) (auto split: option.splits)

lemma load_properties_log_mono:
  "w \<in> set log \<Longrightarrow> w \<in> set (snd (load_properties kf name cp d ps (obj, log)))"
  by (induction ps arbitrary: obj log) (auto split: option.splits)

lemma load_properties_warn_missing:
  "p \<in> set ps \<Longrightarrow> g_key_file_get_value kf name p = None \<Longrightarrow>
   Parameter_Not_In_Preset p \<in> set (snd (load_properties kf name cp d ps (obj, log)))"
  by (induction ps arbitrary: obj log) (auto simp add: load_properties_log_mono split: option.splits)

lemma load_properties_warn_decode:
  "p \<in> set ps \<Longrightarrow> g_key_file_get_value kf name p = Some s \<Longrightarrow>
   g_object_class_find_property cp p = Some q \<Longrightarrow> d (ps_value_type q) s = None \<Longrightarrow>
   Deserialization_Failed s p \<in> set (snd (load_properties kf name cp d ps (obj, log)))"
  by (induction ps arbitrary: obj log) (auto simp add: load_properties_log_mono split: option.splits)

text \<open>
  Claim C6. With the key file \<open>kf\<close> of the element type, loading the preset \<open>name\<close>
  fails at the label \<^verbatim>\<open>no_group\<close> exactly when \<open>kf\<close> has no group \<open>name\<close>. When
  the group is there, the call for an element with the properties \<open>props\<close> returns
  \<^verbatim>\<open>TRUE\<close>: a property without an entry in the group keeps its value and is
  reported, a property whose entry does not deserialize keeps its value and is
  reported, and a property whose entry deserializes is set.
\<close>

theorem load_preset_tolerant:
  assumes "preset_get_keyfile e st = Returns (Some kf, st1)"
  shows "(gst_preset_default_load_preset e st cp d obj name = Returns (Inl No_Group, st1)
          \<longleftrightarrow> \<not> g_key_file_has_group kf name) \<and>
    (g_key_file_has_group kf name \<longrightarrow>
      (\<exists>obj' log.
         gst_preset_default_load_preset e st (Some props) d obj name
           = Returns (Inr (obj', log), st1) \<and>
         (\<forall>p. g_key_file_get_value kf name p = None \<longrightarrow> obj' p = obj p) \<and>
         (\<forall>q \<in> set props. \<not> preset_skip_property q
              \<and> g_key_file_get_value kf name (ps_name q) = None \<longrightarrow>
            Parameter_Not_In_Preset (ps_name q) \<in> set log) \<and>
         (\<forall>p s q. g_key_file_get_value kf name p = Some s
              \<and> g_object_class_find_property (Some props) p = Some q
              \<and> d (ps_value_type q) s = None \<longrightarrow>
            obj' p = obj p) \<and>
         (\<forall>q' \<in> set props. \<forall>s q. \<not> preset_skip_property q'
              \<and> g_key_file_get_value kf name (ps_name q') = Some s
              \<and> g_object_class_find_property (Some props) (ps_name q') = Some q \<longrightarrow>
            (case d (ps_value_type q) s of
               None \<Rightarrow> Deserialization_Failed s (ps_name q') \<in> set log
             | Some v \<Rightarrow> obj' (ps_name q') = Some v))))"
proof (intro conjI impI)
  show "gst_preset_default_load_preset e st cp d obj name = Returns (Inl No_Group, st1)
          \<longleftrightarrow> \<not> g_key_file_has_group kf name"
    using assms by (auto simp add: gst_preset_default_load_preset_def split: option.splits)
next
  assume h: "g_key_file_has_group kf name"
  let ?names = "map ps_name (filter (\<lambda>p. \<not> preset_skip_property p) props)"
  let ?r = "load_properties kf name (Some props) d ?names (obj, [])"
  have n: "gst_preset_default_get_property_names (Some props) = Some ?names"
    by (simp add: gst_preset_default_get_property_names_def)
  have m: "ps_name q \<in> set ?names" if "q \<in> set props" "\<not> preset_skip_property q" for q
    using that by auto
  have l: "gst_preset_default_load_preset e st (Some props) d obj name
      = Returns (Inr (fst ?r, snd ?r), st1)"
    using assms h n by (simp add: gst_preset_default_load_preset_def)
  have o1: "\<forall>p. g_key_file_get_value kf name p = None \<longrightarrow> fst ?r p = obj p"
    by (auto simp add: load_properties_obj)
  have w1: "\<forall>q \<in> set props. \<not> preset_skip_property q
        \<and> g_key_file_get_value kf name (ps_name q) = None \<longrightarrow>
      Parameter_Not_In_Preset (ps_name q) \<in> set (snd ?r)"
    using m by (blast intro: load_properties_warn_missing)
  have o2: "\<forall>p s q. g_key_file_get_value kf name p = Some s
        \<and> g_object_class_find_property (Some props) p = Some q
        \<and> d (ps_value_type q) s = None \<longrightarrow>
      fst ?r p = obj p"
    by (auto simp add: load_properties_obj)
  have o3: "\<forall>q' \<in> set props. \<forall>s q. \<not> preset_skip_property q'
        \<and> g_key_file_get_value kf name (ps_name q') = Some s
        \<and> g_object_class_find_property (Some props) (ps_name q') = Some q \<longrightarrow>
      (case d (ps_value_type q) s of
         None \<Rightarrow> Deserialization_Failed s (ps_name q') \<in> set (snd ?r)
       | Some v \<Rightarrow> fst ?r (ps_name q') = Some v)"
  proof (intro ballI allI impI)
    fix q' s q
    assume q': "q' \<in> set props"
      and a: "\<not> preset_skip_property q'
        \<and> g_key_file_get_value kf name (ps_name q') = Some s
        \<and> g_object_class_find_property (Some props) (ps_name q') = Some q"
    from q' a have i: "ps_name q' \<in> set ?names" using m by blast
    show "case d (ps_value_type q) s of
         None \<Rightarrow> Deserialization_Failed s (ps_name q') \<in> set (snd ?r)
       | Some v \<Rightarrow> fst ?r (ps_name q') = Some v"
    proof (cases "d (ps_value_type q) s")
      case None
      with a i show ?thesis by (simp add: load_properties_warn_decode)
    next
      case (Some v)
      with a i show ?thesis by (simp add: load_properties_obj)
    qed
  qed
  from l o1 w1 o2 o3
  show "\<exists>obj' log.
         gst_preset_default_load_preset e st (Some props) d obj name
           = Returns (Inr (obj', log), st1) \<and>
         (\<forall>p. g_key_file_get_value kf name p = None \<longrightarrow> obj' p = obj p) \<and>
         (\<forall>q \<in> set props. \<not> preset_skip_property q
              \<and> g_key_file_get_value kf name (ps_name q) = None \<longrightarrow>
            Parameter_Not_In_Preset (ps_name q) \<in> set log) \<and>
         (\<forall>p s q. g_key_file_get_value kf name p = Some s
              \<and> g_object_class_find_property (Some props) p = Some q
              \<and> d (ps_value_type q) s = None \<longrightarrow>
            obj' p = obj p) \<and>
         (\<forall>q' \<in> set props. \<forall>s q. \<not> preset_skip_property q'
              \<and> g_key_file_get_value kf name (ps_name q') = Some s
              \<and> g_object_class_find_property (Some props) (ps_name q') = Some q \<longrightarrow>
            (case d (ps_value_type q) s of
               None \<Rightarrow> Deserialization_Failed s (ps_name q') \<in> set log
             | Some v \<Rightarrow> obj' (ps_name q') = Some v))"
    by blast
qed

theorem load_preset_tolerant_witness:
  "preset_get_keyfile env_example state_load_example
     = Returns (Some doc_load_example, state_load_example) \<and>
   g_key_file_has_group doc_load_example ''A'' \<and>
   gst_preset_default_get_property_names (Some class_example) = Some [''x'', ''y'', ''z''] \<and>
   g_key_file_get_value doc_load_example ''A'' ''y'' = None \<and>
   g_key_file_get_value doc_load_example ''A'' ''z'' = Some ''oops'' \<and>
   deserialize_example 1 ''oops'' = None \<and>
   (\<exists>obj' log.
      gst_preset_default_load_preset env_example state_load_example (Some class_example)
        deserialize_example object_example ''A'' = Returns (Inr (obj', log), state_load_example) \<and>
      obj' ''x'' = Some 7 \<and> obj' ''y'' = Some 2 \<and> obj' ''z'' = Some 3 \<and>
      Parameter_Not_In_Preset ''y'' \<in> set log \<and>
      Deserialization_Failed ''oops'' ''z'' \<in> set log) \<and>
   \<not> g_key_file_has_group doc_load_example ''B'' \<and>
   gst_preset_default_load_preset env_example state_load_example (Some class_example)
     deserialize_example object_example ''B'' = Returns (Inl No_Group, state_load_example)"
proof -
  let ?x = "\<lparr>ps_name = ''x'', ps_flags = 1 OR 2, ps_value_type = 1\<rparr>"
  let ?y = "\<lparr>ps_name = ''y'', ps_flags = 1 OR 2, ps_value_type = 1\<rparr>"
  let ?z = "\<lparr>ps_name = ''z'', ps_flags = 1 OR 2, ps_value_type = 1\<rparr>"
  have h: "preset_get_keyfile env_example state_load_example
     = Returns (Some doc_load_example, state_load_example)"
    by (simp add: preset_get_keyfile_def state_load_example_def)
  have g: "g_key_file_has_group doc_load_example ''A''"
    by (simp add: doc_load_example_def doc_eval)
  have n: "gst_preset_default_get_property_names (Some class_example) = Some [''x'', ''y'', ''z'']"
    by (simp add: class_example_def class_defs)
  have vx: "g_key_file_get_value doc_load_example ''A'' (ps_name ?x) = Some ''7''"
    and vy: "g_key_file_get_value doc_load_example ''A'' (ps_name ?y) = None"
    and vz: "g_key_file_get_value doc_load_example ''A'' (ps_name ?z) = Some ''oops''"
    by (simp_all add: doc_load_example_def doc_eval)
  have fx: "g_object_class_find_property (Some class_example) (ps_name ?x) = Some ?x"
    and fz: "g_object_class_find_property (Some class_example) (ps_name ?z) = Some ?z"
    by (simp_all add: class_example_def class_defs)
  have dx: "deserialize_example (ps_value_type ?x) ''7'' = Some 7"
    and dz: "deserialize_example (ps_value_type ?z) ''oops'' = None"
    by (simp_all add: deserialize_example_def isdigit_def digit_val_def)
  have dz': "deserialize_example 1 ''oops'' = None"
    using dz by simp
  have o: "object_example ''y'' = Some 2" "object_example ''z'' = Some 3"
    by (simp_all add: object_example_def)
  have m: "?x \<in> set class_example" "?y \<in> set class_example" "?z \<in> set class_example"
    by (simp_all add: class_example_def)
  have k: "\<not> preset_skip_property ?x" "\<not> preset_skip_property ?y" "\<not> preset_skip_property ?z"
    by (simp_all add: class_example_def class_defs)
  have b: "\<not> g_key_file_has_group doc_load_example ''B''"
    by (simp add: doc_load_example_def doc_eval)
  from load_preset_tolerant [OF h, of "Some class_example" deserialize_example object_example
      "''A''" class_example] g
  obtain obj' log where
    l: "gst_preset_default_load_preset env_example state_load_example (Some class_example)
        deserialize_example object_example ''A'' = Returns (Inr (obj', log), state_load_example)"
    and o1: "\<forall>p. g_key_file_get_value doc_load_example ''A'' p = None \<longrightarrow> obj' p = object_example p"
    and w1: "\<forall>q \<in> set class_example. \<not> preset_skip_property q
              \<and> g_key_file_get_value doc_load_example ''A'' (ps_name q) = None \<longrightarrow>
            Parameter_Not_In_Preset (ps_name q) \<in> set log"
    and o2: "\<forall>p s q. g_key_file_get_value doc_load_example ''A'' p = Some s
              \<and> g_object_class_find_property (Some class_example) p = Some q
              \<and> deserialize_example (ps_value_type q) s = None \<longrightarrow>
            obj' p = object_example p"
    and o3: "\<forall>q' \<in> set class_example. \<forall>s q. \<not> preset_skip_property q'
              \<and> g_key_file_get_value doc_load_example ''A'' (ps_name q') = Some s
              \<and> g_object_class_find_property (Some class_example) (ps_name q') = Some q \<longrightarrow>
            (case deserialize_example (ps_value_type q) s of
               None \<Rightarrow> Deserialization_Failed s (ps_name q') \<in> set log
             | Some v \<Rightarrow> obj' (ps_name q') = Some v)"
    by blast
  have "case deserialize_example (ps_value_type ?x) ''7'' of
               None \<Rightarrow> Deserialization_Failed ''7'' (ps_name ?x) \<in> set log
             | Some v \<Rightarrow> obj' (ps_name ?x) = Some v"
    using o3 m(1) k(1) vx fx by blast
  then have rx: "obj' ''x'' = Some 7" unfolding dx by simp
  have "obj' (ps_name ?y) = object_example (ps_name ?y)" using o1 vy by blast
  then have ry: "obj' ''y'' = Some 2" using o by simp
  have "obj' (ps_name ?z) = object_example (ps_name ?z)" using o2 vz fz dz by blast
  then have rz: "obj' ''z'' = Some 3" using o by simp
  have "Parameter_Not_In_Preset (ps_name ?y) \<in> set log" using w1 m(2) k(2) vy by blast
  then have wy: "Parameter_Not_In_Preset ''y'' \<in> set log" by simp
  have "case deserialize_example (ps_value_type ?z) ''oops'' of
               None \<Rightarrow> Deserialization_Failed ''oops'' (ps_name ?z) \<in> set log
             | Some v \<Rightarrow> obj' (ps_name ?z) = Some v"
    using o3 m(3) k(3) vz fz by blast
  then have wz: "Deserialization_Failed ''oops'' ''z'' \<in> set log" unfolding dz by simp
  have vy': "g_key_file_get_value doc_load_example ''A'' ''y'' = None"
    and vz': "g_key_file_get_value doc_load_example ''A'' ''z'' = Some ''oops''"
    using vy vz by simp_all
  have nb: "gst_preset_default_load_preset env_example state_load_example (Some class_example)
     deserialize_example object_example ''B'' = Returns (Inl No_Group, state_load_example)"
    using load_preset_tolerant [OF h, of "Some class_example" deserialize_example object_example
        "''B''"] b
    by blast
  from h g n vy' vz' dz' l rx ry rz wy wz b nb show ?thesis by blast
qed

subsection \<open>Meta data\<close>








subsection \<open>Renaming a preset to its own name\<close>

lemma has_group_rename_group_same:
  "\<not> g_key_file_has_group (rename_group kf name new_name) name"
  by (simp add: rename_group_def Let_def has_group_remove_group)

lemma has_group_version_stamped:
  "g \<noteq> PRESET_HEADER \<Longrightarrow>
   g_key_file_has_group (version_stamped e kf) g = g_key_file_has_group kf g"
  by (simp add: g_key_file_set_string_def has_group_set_value)

text \<open>
  Claim C10, as the code has it. Renaming an existing preset to its own name copies
  the keys onto the same group and then removes that group: the call passes the test
  for the group and returns the result of the save (\<^verbatim>\<open>TRUE\<close> exactly when the
  printer and the write succeed), the key file no longer has the group, and loading
  the preset fails at the label \<^verbatim>\<open>no_group\<close>.
\<close>

theorem rename_to_same_name:
  assumes "preset_get_keyfile e st = Returns (Some kf, st1)"
    and "g_key_file_has_group kf name"
    and "\<not> is_private name"
  shows "\<exists>r st2 kf2.
     gst_preset_default_rename_preset e st name name = Returns (Inr r, st2) \<and>
     cache st2 = Some kf2 \<and>
     (r \<longleftrightarrow> to_data e kf2 \<noteq> None \<and> \<not> write_refused e (preset_user_path e)) \<and>
     \<not> g_key_file_has_group kf2 name \<and>
     gst_preset_default_load_preset e st2 cp d obj name = Returns (Inl No_Group, st2)"
proof -
  let ?kf1 = "rename_group kf name name"
  let ?kf2 = "version_stamped e ?kf1"
  let ?b = "save_presets_file_body e (Some ?kf1) (st1\<lparr>cache := Some ?kf1\<rparr>)"
  have s: "gst_preset_default_save_presets_file e (st1\<lparr>cache := Some ?kf1\<rparr>) = Returns ?b"
    by (simp add: save_presets_file_cached)
  have r: "gst_preset_default_rename_preset e st name name = Returns (Inr (fst ?b), snd ?b)"
    using assms(1,2) s by (simp add: gst_preset_default_rename_preset_def Let_def case_prod_beta)
  have c: "cache (snd ?b) = Some ?kf2" by (rule save_body_cache)
  have f: "fst ?b \<longleftrightarrow> to_data e ?kf2 \<noteq> None \<and> \<not> write_refused e (preset_user_path e)"
    by (rule save_body_result)
  have "name \<noteq> PRESET_HEADER" using assms(3) is_private_header by auto
  then have g: "\<not> g_key_file_has_group ?kf2 name"
    by (simp add: has_group_version_stamped has_group_rename_group_same)
  have k: "preset_get_keyfile e (snd ?b) = Returns (Some ?kf2, snd ?b)"
    using c by (rule preset_get_keyfile_cached)
  have l: "gst_preset_default_load_preset e (snd ?b) cp d obj name = Returns (Inl No_Group, snd ?b)"
    using k g by (simp add: gst_preset_default_load_preset_def)
  from r c f g l show ?thesis by blast
qed

theorem rename_to_same_name_witness:
  "preset_get_keyfile env_example state_cached = Returns (Some doc_user_example, state_cached) \<and>
   g_key_file_has_group doc_user_example ''A'' \<and> \<not> is_private ''A'' \<and>
   (\<exists>st2 kf2.
      gst_preset_default_rename_preset env_example state_cached ''A'' ''A'' = Returns (Inr True, st2) \<and>
      cache st2 = Some kf2 \<and> \<not> g_key_file_has_group kf2 ''A'' \<and>
      gst_preset_default_load_preset env_example st2 (Some class_example) deserialize_example
        object_example ''A'' = Returns (Inl No_Group, st2))"
proof -
  have h: "preset_get_keyfile env_example state_cached
      = Returns (Some doc_user_example, state_cached)"
    by (simp add: preset_get_keyfile_def state_cached_def)
  have g: "g_key_file_has_group doc_user_example ''A''"
    by (simp add: doc_user_example_def doc_eval)
  have p: "\<not> is_private ''A''" by (simp add: is_private_def)
  have w: "\<not> write_refused env_example (preset_user_path env_example)"
    and t: "\<And>kf. to_data env_example kf \<noteq> None"
    by (simp_all add: env_example_def)
  from rename_to_same_name [OF h g p, of "Some class_example" deserialize_example object_example]
  obtain r st2 kf2 where
    "gst_preset_default_rename_preset env_example state_cached ''A'' ''A'' = Returns (Inr r, st2)"
    "cache st2 = Some kf2"
    "r \<longleftrightarrow> to_data env_example kf2 \<noteq> None \<and> \<not> write_refused env_example (preset_user_path env_example)"
    "\<not> g_key_file_has_group kf2 ''A''"
    "gst_preset_default_load_preset env_example st2 (Some class_example) deserialize_example
        object_example ''A'' = Returns (Inl No_Group, st2)"
    by blast
  with h g p w t show ?thesis by auto
qed

text \<open>
  Claim C10 as stated fails where it says that the call reports success: it returns
  the result of the save, which is \<^verbatim>\<open>FALSE\<close> when the user file cannot be written.
\<close>

theorem rename_to_same_name_counterexample:
  "cache state_cached = Some doc_user_example \<and>
   g_key_file_has_group doc_user_example ''A'' \<and> \<not> is_private ''A'' \<and>
   (case gst_preset_default_rename_preset
           (env_example\<lparr>write_refused := \<lambda>path. True\<rparr>) state_cached ''A'' ''A'' of
      Returns (Inr r, st2) \<Rightarrow> \<not> r
    | _ \<Rightarrow> False)"
  by (simp add: gst_preset_default_rename_preset_def gst_preset_default_save_presets_file_def
      preset_get_keyfile_def save_presets_file_body_def fs_defs example_defs kf_ops header_defs
      rename_group_def Let_def)

end
